theory Spec2Isabelle
  imports Main "HOL-Library.Char_ord" "HOL-Library.List_Lexorder"
begin

section \<open>JavaScript values\<close>

text \<open>
  The request toolkit passes schema-free data around (\<^verbatim>\<open>any\<close>, \<^verbatim>\<open>unknown\<close>): parsed
  response bodies, request bodies, property mappings. They are modelled by one type of
  JavaScript values. Numbers are integers, printed in decimal. An object is the list of
  its own properties in the engine's enumeration order, with distinct keys. Of the
  members that a value inherits, the model has the accessor \<^verbatim>\<open>__proto__\<close>, which reads
  the prototype, and so it has the five prototype objects that a value of this type can
  have; the inherited methods, which are function values, are not part of the model.
\<close>

datatype proto = ObjectProto | ArrayProto | StringProto | NumberProto | BooleanProto

datatype jsval =
    Undefined
  | Null
  | Bool bool
  | Num int
  | Str string
  | Arr "jsval list"
  | Obj "(string \<times> jsval) list"
  | Proto proto

type_synonym 'v jsrecord = "(string \<times> 'v) list"

fun truthy :: "jsval \<Rightarrow> bool" where
  "truthy Undefined = False"
| "truthy Null = False"
| "truthy (Bool b) = b"
| "truthy (Num n) = (n \<noteq> 0)"
| "truthy (Str s) = (s \<noteq> [])"
| "truthy (Arr xs) = True"
| "truthy (Obj kvs) = True"
| "truthy (Proto p) = True"

fun nullish :: "jsval \<Rightarrow> bool" where
  "nullish Undefined = True"
| "nullish Null = True"
| "nullish v = False"

subsection \<open>Numbers and strings\<close>

fun show_nat :: "nat \<Rightarrow> string" where
  "show_nat n = (if n < 10 then [''0123456789'' ! n]
                 else show_nat (n div 10) @ [''0123456789'' ! (n mod 10)])"

declare show_nat.simps [simp del]

definition show_int :: "int \<Rightarrow> string" where
  "show_int i = (if i < 0 then CHR ''-'' # show_nat (nat (- i)) else show_nat (nat i))"

definition is_digit :: "char \<Rightarrow> bool" where
  "is_digit c = (c \<in> set ''0123456789'')"

definition num_val :: "string \<Rightarrow> int" where
  "num_val s = foldl (\<lambda>a c. 10 * a + (of_char c - 48)) 0 s"

text \<open>An array index in the sense of the language: a canonical decimal numeral below \<open>2^32 - 1\<close>.\<close>

definition is_index :: "string \<Rightarrow> bool" where
  "is_index s = (s \<noteq> [] \<and> list_all is_digit s \<and> (s = ''0'' \<or> hd s \<noteq> CHR ''0'')
                 \<and> num_val s < 4294967295)"

fun join :: "string \<Rightarrow> string list \<Rightarrow> string" where
  "join sep [] = []"
| "join sep [x] = x"
| "join sep (x # y # ys) = x @ sep @ join sep (y # ys)"

text \<open>
  \<^verbatim>\<open>String(v)\<close> and template-literal interpolation. The prototypes of strings, numbers
  and booleans are wrappers of the empty string, of zero and of \<^verbatim>\<open>false\<close>, and the
  prototype of arrays is an empty array.
\<close>

fun js_String :: "jsval \<Rightarrow> string" where
  "js_String Undefined = ''undefined''"
| "js_String Null = ''null''"
| "js_String (Bool b) = (if b then ''true'' else ''false'')"
| "js_String (Num n) = show_int n"
| "js_String (Str s) = s"
| "js_String (Arr xs) = join '','' (map (\<lambda>x. if nullish x then [] else js_String x) xs)"
| "js_String (Obj kvs) = ''[object Object]''"
| "js_String (Proto p) =
     (case p of ObjectProto \<Rightarrow> ''[object Object]'' | ArrayProto \<Rightarrow> [] | StringProto \<Rightarrow> []
      | NumberProto \<Rightarrow> ''0'' | BooleanProto \<Rightarrow> ''false'')"

subsection \<open>\<^verbatim>\<open>JSON.stringify\<close>\<close>

definition quote_char :: "char \<Rightarrow> string" where
  "quote_char c =
     (if c = CHR 0x22 then [CHR 0x5C, CHR 0x22]
      else if c = CHR 0x5C then [CHR 0x5C, CHR 0x5C]
      else if c = CHR 0x08 then [CHR 0x5C, CHR ''b'']
      else if c = CHR 0x09 then [CHR 0x5C, CHR ''t'']
      else if c = CHR 0x0A then [CHR 0x5C, CHR ''n'']
      else if c = CHR 0x0C then [CHR 0x5C, CHR ''f'']
      else if c = CHR 0x0D then [CHR 0x5C, CHR ''r'']
      else if (of_char c :: nat) < 32 then
        [CHR 0x5C, CHR ''u'', CHR ''0'', CHR ''0'',
         ''0123456789abcdef'' ! (of_char c div 16), ''0123456789abcdef'' ! (of_char c mod 16)]
      else [c])"

definition quote :: "string \<Rightarrow> string" where
  "quote s = CHR 0x22 # concat (map quote_char s) @ [CHR 0x22]"

text \<open>
  \<^verbatim>\<open>JSON.stringify(v)\<close>: no text for \<^verbatim>\<open>undefined\<close> (the call returns \<^verbatim>\<open>undefined\<close>);
  inside an array \<^verbatim>\<open>undefined\<close> prints as \<^verbatim>\<open>null\<close>, inside an object the property is
  left out. Properties are printed in the object's own order.
\<close>

fun stringify :: "jsval \<Rightarrow> string option" where
  "stringify Undefined = None"
| "stringify Null = Some ''null''"
| "stringify (Bool b) = Some (if b then ''true'' else ''false'')"
| "stringify (Num n) = Some (show_int n)"
| "stringify (Str s) = Some (quote s)"
| "stringify (Arr xs) =
     Some (''['' @ join '','' (map (\<lambda>x. case stringify x of None \<Rightarrow> ''null'' | Some t \<Rightarrow> t) xs)
           @ '']'')"
| "stringify (Obj kvs) =
     Some (''{'' @ join '','' (concat (map (\<lambda>kv. case stringify (snd kv) of
                                                    None \<Rightarrow> []
                                                  | Some t \<Rightarrow> [quote (fst kv) @ '':'' @ t]) kvs))
           @ ''}'')"
| "stringify (Proto p) =
     Some (case p of ObjectProto \<Rightarrow> ''{}'' | ArrayProto \<Rightarrow> ''[]''
           | StringProto \<Rightarrow> [CHR 0x22, CHR 0x22] | NumberProto \<Rightarrow> ''0''
           | BooleanProto \<Rightarrow> ''false'')"

subsection \<open>Property access\<close>

text \<open>
  \<^verbatim>\<open>r[k] = v\<close> on an object: an existing property keeps its place; a new array-index key
  goes among the index keys in ascending order, which come first; any other new key goes
  to the end. The key \<^verbatim>\<open>__proto__\<close> is the exception: unless the object has an own
  property of that name, the assignment runs the inherited setter, which adds no own
  property.
\<close>

fun rec_replace :: "string \<Rightarrow> 'v \<Rightarrow> 'v jsrecord \<Rightarrow> 'v jsrecord" where
  "rec_replace k v [] = []"
| "rec_replace k v (kv # r) = (if fst kv = k then (k, v) # r else kv # rec_replace k v r)"

fun rec_insert_index :: "string \<Rightarrow> 'v \<Rightarrow> 'v jsrecord \<Rightarrow> 'v jsrecord" where
  "rec_insert_index k v [] = [(k, v)]"
| "rec_insert_index k v (kv # r) =
     (if is_index (fst kv) \<and> num_val (fst kv) < num_val k then kv # rec_insert_index k v r
      else (k, v) # kv # r)"

definition rec_set :: "string \<Rightarrow> 'v \<Rightarrow> 'v jsrecord \<Rightarrow> 'v jsrecord" where
  "rec_set k v r =
     (if k \<in> set (map fst r) then rec_replace k v r
      else if k = ''__proto__'' then r
      else if is_index k then rec_insert_index k v r
      else r @ [(k, v)])"

text \<open>
  \<^verbatim>\<open>v[k]\<close> for a receiver that is neither \<^verbatim>\<open>undefined\<close> nor \<^verbatim>\<open>null\<close>. On those two the
  language raises a TypeError; every call site below either guards the receiver or
  models the error. An own property comes first; the name \<^verbatim>\<open>__proto__\<close> otherwise reads
  the prototype of the receiver.
\<close>

fun get_prop :: "jsval \<Rightarrow> string \<Rightarrow> jsval" where
  "get_prop (Obj kvs) k =
     (case map_of kvs k of
        Some v \<Rightarrow> v
      | None \<Rightarrow> if k = ''__proto__'' then Proto ObjectProto else Undefined)"
| "get_prop (Arr xs) k =
     (if k = ''length'' then Num (int (length xs))
      else if is_index k \<and> num_val k < int (length xs) then xs ! nat (num_val k)
      else if k = ''__proto__'' then Proto ArrayProto
      else Undefined)"
| "get_prop (Str s) k =
     (if k = ''length'' then Num (int (length s))
      else if is_index k \<and> num_val k < int (length s) then Str [s ! nat (num_val k)]
      else if k = ''__proto__'' then Proto StringProto
      else Undefined)"
| "get_prop (Num n) k = (if k = ''__proto__'' then Proto NumberProto else Undefined)"
| "get_prop (Bool b) k = (if k = ''__proto__'' then Proto BooleanProto else Undefined)"
| "get_prop (Proto p) k =
     (if k = ''__proto__'' then (if p = ObjectProto then Null else Proto ObjectProto)
      else if k = ''length'' \<and> (p = ArrayProto \<or> p = StringProto) then Num 0
      else Undefined)"
| "get_prop Undefined k = Undefined"
| "get_prop Null k = Undefined"

text \<open>\<^verbatim>\<open>v?.[k]\<close>\<close>

definition opt_prop :: "jsval \<Rightarrow> string \<Rightarrow> jsval" where
  "opt_prop v k = (if nullish v then Undefined else get_prop v k)"

text \<open>\<^verbatim>\<open>Object.keys(v)\<close> for a receiver that is neither \<^verbatim>\<open>undefined\<close> nor \<^verbatim>\<open>null\<close>.\<close>

fun own_keys :: "jsval \<Rightarrow> string list" where
  "own_keys (Obj kvs) = map fst kvs"
| "own_keys (Arr xs) = map show_nat [0..<length xs]"
| "own_keys (Str s) = map show_nat [0..<length s]"
| "own_keys v = []"

text \<open>\<^verbatim>\<open>new Set(xs)\<close>, iterated: the elements in the order of their first occurrence.\<close>

definition set_of_list :: "string list \<Rightarrow> string list" where
  "set_of_list xs = fold (\<lambda>x seen. if x \<in> set seen then seen else seen @ [x]) xs []"

section \<open>Types of the request toolkit\<close>

datatype HttpMethod = GET | POST | PUT | PATCH | DELETE | HEAD | OPTIONS

datatype AuthType = none | apiKeyHeader | apiKeyQuery | bearer

record Auth =
  auth_type :: AuthType
  apiKey :: "string option"
  apiKeyHeaderName :: "string option"
  apiKeyQueryName :: "string option"
  bearerToken :: "string option"

text \<open>
  The source reads \<^verbatim>\<open>profile.headers || {}\<close>, \<^verbatim>\<open>profile.query || {}\<close> and
  \<^verbatim>\<open>profile.auth?.type\<close>, so these three fields may be absent. The field \<^verbatim>\<open>method\<close> of a
  profile is \<open>http_method\<close> here and the field \<^verbatim>\<open>type\<close> of the auth record is
  \<open>auth_type\<close>; the fields of a request and of a response that share a name with a
  field of the profile carry the prefix \<open>req_\<close> or \<open>resp_\<close>.
\<close>

record ApiProfile =
  name :: "string option"
  baseUrl :: string
  path :: string
  http_method :: HttpMethod
  headers :: "string jsrecord option"
  query :: "string jsrecord option"
  body :: jsval
  auth :: "Auth option"

record ProxyRequest =
  url :: string
  req_method :: HttpMethod
  req_headers :: "string jsrecord option"
  req_body :: jsval

record 'd ProxyResponse =
  ok :: bool
  status :: int
  statusText :: string
  resp_headers :: "string jsrecord"
  data :: 'd
  rawText :: "string option"
  durationMs :: "int option"

datatype error = TypeError | Error string

section \<open>The platform and the remote side\<close>

text \<open>
  The \<^verbatim>\<open>URL\<close> class and the conversion of strings to numbers belong to the JavaScript
  platform, not to this repository; they are parameters of the model. A parsed URL is
  represented by its serialisation. \<open>urlParse\<close> is \<^verbatim>\<open>new URL(s)\<close> (\<open>None\<close> when it raises
  a TypeError), \<open>urlSetParam\<close> is \<^verbatim>\<open>url.searchParams.set(k, v)\<close>, and \<open>strPositive s\<close>
  says that the number denoted by the string \<open>s\<close> is greater than zero.
\<close>

record platform =
  urlParse :: "string \<Rightarrow> string option"
  urlSetParam :: "string \<Rightarrow> string \<Rightarrow> string \<Rightarrow> string"
  strPositive :: "string \<Rightarrow> bool"

text \<open>
  The remote side answers every request handed to the proxy endpoint with a normalised
  response and the time the round trip took; its answer may depend on the requests made
  before. The handler of the endpoint catches every error and answers with status 200 and
  a response object on all its paths, so a call of \<^verbatim>\<open>runProxy\<close> always has an answer. The
  list of requests made so far is the state threaded through every function that can
  reach the network.
\<close>

type_synonym trace = "ProxyRequest list"

type_synonym world = "trace \<Rightarrow> ProxyRequest \<Rightarrow> jsval ProxyResponse \<times> int"

section \<open>\<^verbatim>\<open>lib/request\<close>\<close>

text \<open>The two local values \<^verbatim>\<open>base\<close> and \<^verbatim>\<open>p\<close> of \<^verbatim>\<open>buildUrl\<close>.\<close>

definition buildUrl_base :: "string \<Rightarrow> string" where
  "buildUrl_base b =
     (if b \<noteq> [] \<and> last b = CHR ''/'' then butlast b else b)"

definition buildUrl_p :: "string \<Rightarrow> string" where
  "buildUrl_p pth =
     (if pth \<noteq> [] then (if hd pth = CHR ''/'' then pth else CHR ''/'' # pth) else [])"

text \<open>The query values are strings, so the tests against \<^verbatim>\<open>undefined\<close> and \<^verbatim>\<open>null\<close> hold.\<close>

definition buildUrl :: "platform \<Rightarrow> string \<Rightarrow> string \<Rightarrow> string jsrecord \<Rightarrow> error + string" where
  "buildUrl P b pth q =
     (case urlParse P (buildUrl_base b @ buildUrl_p pth) of
        None \<Rightarrow> Inl TypeError
      | Some u \<Rightarrow>
          Inr (fold (\<lambda>kv u. if snd kv \<noteq> [] then urlSetParam P u (fst kv) (snd kv) else u)
                    q u))"

definition or_default :: "string option \<Rightarrow> string \<Rightarrow> string" where
  "or_default s d = (case s of None \<Rightarrow> d | Some t \<Rightarrow> if t = [] then d else t)"

definition or_empty :: "'v jsrecord option \<Rightarrow> 'v jsrecord" where
  "or_empty r = (case r of None \<Rightarrow> [] | Some kvs \<Rightarrow> kvs)"

definition present :: "string option \<Rightarrow> bool" where
  "present s = (case s of None \<Rightarrow> False | Some t \<Rightarrow> t \<noteq> [])"

text \<open>
  \<^verbatim>\<open>applyAuth\<close> as a function of values: the headers and the query it returns.
  The version on a heap of objects below shows which objects it writes.
\<close>

definition applyAuth :: "ApiProfile \<Rightarrow> string jsrecord \<times> string jsrecord" where
  "applyAuth profile =
     (let hs = or_empty (headers profile); q = or_empty (query profile) in
      case auth profile of
        None \<Rightarrow> (hs, q)
      | Some a \<Rightarrow>
          (case auth_type a of
             apiKeyHeader \<Rightarrow>
               (if present (apiKey a)
                then (rec_set (or_default (apiKeyHeaderName a) ''Authorization'') (the (apiKey a)) hs, q)
                else (hs, q))
           | apiKeyQuery \<Rightarrow>
               (if present (apiKey a)
                then (hs, rec_set (or_default (apiKeyQueryName a) ''api_key'') (the (apiKey a)) q)
                else (hs, q))
           | bearer \<Rightarrow>
               (if present (bearerToken a)
                then (rec_set ''Authorization'' (''Bearer '' @ the (bearerToken a)) hs, q)
                else (hs, q))
           | none \<Rightarrow> (hs, q)))"

definition buildProxyPayload :: "platform \<Rightarrow> ApiProfile \<Rightarrow> error + ProxyRequest" where
  "buildProxyPayload P profile =
     (case applyAuth profile of
        (hs, q) \<Rightarrow>
          (case buildUrl P (baseUrl profile) (path profile) q of
             Inl e \<Rightarrow> Inl e
           | Inr u \<Rightarrow>
               Inr \<lparr>url = u, req_method = http_method profile, req_headers = Some hs,
                    req_body = body profile\<rparr>))"

text \<open>
  \<^verbatim>\<open>runProxy\<close>: one call to the proxy endpoint; the duration is the one reported, or else the
  time measured by the caller.
\<close>

definition runProxy :: "world \<Rightarrow> ProxyRequest \<Rightarrow> trace \<Rightarrow> jsval ProxyResponse \<times> trace" where
  "runProxy W payload tr =
     (case W tr payload of
        (json, elapsed) \<Rightarrow>
          (json\<lparr>durationMs := (case durationMs json of None \<Rightarrow> Some elapsed | Some d \<Rightarrow> Some d)\<rparr>,
           tr @ [payload]))"

section \<open>\<^verbatim>\<open>lib/mapping\<close>\<close>

record Change =
  change_from :: jsval
  change_to :: jsval

text \<open>
  \<^verbatim>\<open>diffProperties\<close>. The body of the loop over the key set is \<open>diff_step\<close>, and the
  loop is a fold that carries \<^verbatim>\<open>changes\<close>. \<^verbatim>\<open>current || {}\<close> replaces a falsy argument by
  the empty object for the keys, and \<^verbatim>\<open>current?.[k]\<close> reads the argument itself.
\<close>

definition diff_step :: "jsval \<Rightarrow> jsval \<Rightarrow> string \<Rightarrow> Change jsrecord \<Rightarrow> Change jsrecord" where
  "diff_step current next k changes =
     (let a = opt_prop current k; b = opt_prop next k in
      if stringify a \<noteq> stringify b
      then rec_set k \<lparr>change_from = a, change_to = b\<rparr> changes
      else changes)"

definition diffProperties :: "jsval \<Rightarrow> jsval \<Rightarrow> Change jsrecord" where
  "diffProperties current next =
     (let keys = set_of_list (own_keys (if truthy current then current else Obj [])
                              @ own_keys (if truthy next then next else Obj []))
      in fold (diff_step current next) keys [])"




section \<open>\<^verbatim>\<open>lib/hubspot\<close>\<close>

text \<open>
  The field \<^verbatim>\<open>id\<close> of a plan is \<open>plan_id\<close> here, and the two fields \<^verbatim>\<open>from\<close> and \<^verbatim>\<open>to\<close> of
  a diff entry are \<open>change_from\<close> and \<open>change_to\<close>. An optional field that is left out is
  \<open>None\<close>.
\<close>

datatype Action = create | update | noop

record UpsertPlan =
  action :: Action
  matchEmail :: "jsval option"
  plan_id :: "jsval option"
  properties :: "jsval jsrecord"
  diff :: "Change jsrecord option"

definition ensureBearerHeaders :: "ApiProfile \<Rightarrow> string jsrecord" where
  "ensureBearerHeaders profile =
     (let hs = or_empty (headers profile);
          hs1 = (case auth profile of
                   None \<Rightarrow> hs
                 | Some a \<Rightarrow>
                     if auth_type a = bearer \<and> present (bearerToken a)
                     then rec_set ''Authorization'' (''Bearer '' @ the (bearerToken a)) hs
                     else hs)
      in rec_set ''Content-Type'' (or_default (map_of hs1 ''Content-Type'') ''application/json'') hs1)"

text \<open>The payload of the search request, for the resolved URL and headers.\<close>

definition searchPayload :: "string \<Rightarrow> string jsrecord \<Rightarrow> jsval \<Rightarrow> ProxyRequest" where
  "searchPayload u hs email =
     \<lparr>url = u, req_method = POST, req_headers = Some hs,
      req_body =
        Obj [(''filterGroups'',
                Arr [Obj [(''filters'',
                             Arr [Obj [(''propertyName'', Str ''email''),
                                       (''operator'', Str ''EQ''),
                                       (''value'', email)]])]]),
             (''properties'',
                Arr [Str ''email'', Str ''firstname'', Str ''lastname'', Str ''hs_object_id'']),
             (''limit'', Num 1)]\<rparr>"

definition searchContactByEmail ::
  "platform \<Rightarrow> world \<Rightarrow> ApiProfile \<Rightarrow> jsval \<Rightarrow> trace \<Rightarrow> (error + jsval ProxyResponse) \<times> trace" where
  "searchContactByEmail P W base email tr =
     (let hs = ensureBearerHeaders base in
      case buildUrl P (baseUrl base) ''/crm/v3/objects/contacts/search'' [] of
        Inl e \<Rightarrow> (Inl e, tr)
      | Inr u \<Rightarrow>
          (case runProxy W (searchPayload u hs email) tr of (res, tr') \<Rightarrow> (Inr res, tr')))"

text \<open>
  \<^verbatim>\<open>v > 0\<close> on a value of any type: the value is converted to a number first. An array
  is converted through its string form; an object's string form denotes no number.
\<close>

fun js_gt0 :: "platform \<Rightarrow> jsval \<Rightarrow> bool" where
  "js_gt0 P Undefined = False"
| "js_gt0 P Null = False"
| "js_gt0 P (Bool b) = b"
| "js_gt0 P (Num n) = (0 < n)"
| "js_gt0 P (Str s) = strPositive P s"
| "js_gt0 P (Arr xs) = strPositive P (js_String (Arr xs))"
| "js_gt0 P (Obj kvs) = False"
| "js_gt0 P (Proto p) = ((p = ArrayProto \<or> p = StringProto) \<and> strPositive P [])"

text \<open>
  \<^verbatim>\<open>planUpsertContactByEmail\<close>. Reading \<^verbatim>\<open>first.id\<close> raises a TypeError when the response
  announces a match but \<^verbatim>\<open>results?.[0]\<close> is \<^verbatim>\<open>undefined\<close> or \<^verbatim>\<open>null\<close>.
\<close>

definition planUpsertContactByEmail ::
  "platform \<Rightarrow> world \<Rightarrow> ApiProfile \<Rightarrow> jsval jsrecord \<Rightarrow> trace \<Rightarrow> (error + UpsertPlan) \<times> trace" where
  "planUpsertContactByEmail P W base props tr =
     (let email = get_prop (Obj props) ''email'' in
      if \<not> truthy email
      then (Inr \<lparr>action = create, matchEmail = None, plan_id = None, properties = props,
                 diff = None\<rparr>, tr)
      else
        (case searchContactByEmail P W base email tr of
           (Inl e, tr') \<Rightarrow> (Inl e, tr')
         | (Inr res, tr') \<Rightarrow>
             if ok res \<and> js_gt0 P (opt_prop (data res) ''total'')
             then
               (let first = opt_prop (get_prop (data res) ''results'') ''0'' in
                if nullish first then (Inl TypeError, tr')
                else
                  (let ident = get_prop first ''id'';
                       currentProps = (if truthy (get_prop first ''properties'')
                                       then get_prop first ''properties'' else Obj []);
                       d = diffProperties currentProps (Obj props);
                       hasChanges = (0 < length d)
                   in (Inr \<lparr>action = (if hasChanges then update else noop), matchEmail = None,
                            plan_id = Some ident, properties = props, diff = Some d\<rparr>, tr')))
             else (Inr \<lparr>action = create, matchEmail = Some email, plan_id = None,
                        properties = props, diff = None\<rparr>, tr')))"

text \<open>
  The executor answers either with the plan itself or with what the remote side sent.
\<close>

datatype exec_data = PlanData UpsertPlan | RemoteData jsval

definition remote_result :: "jsval ProxyResponse \<Rightarrow> exec_data ProxyResponse" where
  "remote_result res =
     \<lparr>ok = ok res, status = status res, statusText = statusText res,
      resp_headers = resp_headers res, data = RemoteData (data res), rawText = rawText res,
      durationMs = durationMs res\<rparr>"

definition has_id :: "UpsertPlan \<Rightarrow> bool" where
  "has_id plan = (case plan_id plan of None \<Rightarrow> False | Some v \<Rightarrow> truthy v)"

definition executeUpsertContactByEmail ::
  "platform \<Rightarrow> world \<Rightarrow> ApiProfile \<Rightarrow> UpsertPlan \<Rightarrow> bool \<Rightarrow> trace
     \<Rightarrow> (error + exec_data ProxyResponse) \<times> trace" where
  "executeUpsertContactByEmail P W base plan dryRun tr =
     (if dryRun
      then (Inr \<lparr>ok = True, status = 200, statusText = ''DryRun'', resp_headers = [],
                 data = PlanData plan, rawText = None, durationMs = Some 0\<rparr>, tr)
      else
        (let hs = ensureBearerHeaders base in
         if action plan = create then
           (case buildUrl P (baseUrl base) ''/crm/v3/objects/contacts'' [] of
              Inl e \<Rightarrow> (Inl e, tr)
            | Inr u \<Rightarrow>
                (case runProxy W \<lparr>url = u, req_method = POST, req_headers = Some hs,
                                  req_body = Obj [(''properties'', Obj (properties plan))]\<rparr> tr of
                   (res, tr') \<Rightarrow> (Inr (remote_result res), tr')))
         else if action plan = update \<and> has_id plan then
           (case buildUrl P (baseUrl base)
                   (''/crm/v3/objects/contacts/'' @ js_String (the (plan_id plan))) [] of
              Inl e \<Rightarrow> (Inl e, tr)
            | Inr u \<Rightarrow>
                (case runProxy W \<lparr>url = u, req_method = PATCH, req_headers = Some hs,
                                  req_body = Obj [(''properties'', Obj (properties plan))]\<rparr> tr of
                   (res, tr') \<Rightarrow> (Inr (remote_result res), tr')))
         else (Inr \<lparr>ok = True, status = 200, statusText = ''Noop'', resp_headers = [],
                    data = PlanData plan, rawText = None, durationMs = Some 0\<rparr>, tr)))"

section \<open>\<^verbatim>\<open>lib/dataset\<close>\<close>

definition runProfile ::
  "platform \<Rightarrow> world \<Rightarrow> ApiProfile \<Rightarrow> trace \<Rightarrow> (error + jsval ProxyResponse) \<times> trace" where
  "runProfile P W profile tr =
     (case buildProxyPayload P profile of
        Inl e \<Rightarrow> (Inl e, tr)
      | Inr payload \<Rightarrow> (case runProxy W payload tr of (res, tr') \<Rightarrow> (Inr res, tr')))"

text \<open>\<^verbatim>\<open>s.split(c)\<close> for a one-character separator.\<close>

fun split_on :: "char \<Rightarrow> string \<Rightarrow> string list" where
  "split_on c [] = [[]]"
| "split_on c (x # xs) =
     (if x = c then [] # split_on c xs
      else (case split_on c xs of [] \<Rightarrow> [[x]] | w # ws \<Rightarrow> (x # w) # ws))"

text \<open>\<^verbatim>\<open>get(obj, path)\<close> of \<^verbatim>\<open>lib/mapping\<close>: the dot-path walk.\<close>

definition get :: "jsval \<Rightarrow> string \<Rightarrow> jsval" where
  "get obj pth =
     (if pth = [] then obj
      else foldl (\<lambda>acc key. if truthy acc then get_prop acc key else Undefined) obj
                 (split_on CHR ''.'' pth))"

text \<open>
  The replacement text of \<^verbatim>\<open>replaceAll\<close> for a string pattern: \<^verbatim>\<open>$$\<close> is a dollar sign,
  \<^verbatim>\<open>$&\<close> the matched text, \<^verbatim>\<open>$`\<close> the text before the match and \<^verbatim>\<open>$'\<close> the text after it.
\<close>

fun expand :: "string \<Rightarrow> string \<Rightarrow> string \<Rightarrow> string \<Rightarrow> string" where
  "expand (c # d # r) m b a =
     (if c = CHR 0x24 \<and> d = CHR 0x24 then CHR 0x24 # expand r m b a
      else if c = CHR 0x24 \<and> d = CHR 0x26 then m @ expand r m b a
      else if c = CHR 0x24 \<and> d = CHR 0x60 then b @ expand r m b a
      else if c = CHR 0x24 \<and> d = CHR 0x27 then a @ expand r m b a
      else c # expand (d # r) m b a)"
| "expand r m b a = r"

text \<open>
  \<^verbatim>\<open>s.replaceAll(pat, rep)\<close> for the non-empty pattern \<open>p # ps\<close>; \<open>passed\<close> is the part of
  the string already passed.
\<close>

function replaceAll_from :: "char \<Rightarrow> string \<Rightarrow> string \<Rightarrow> string \<Rightarrow> string \<Rightarrow> string" where
  "replaceAll_from p ps rep passed [] = []"
| "replaceAll_from p ps rep passed (c # cs) =
     (if c = p \<and> take (length ps) cs = ps
      then expand rep (p # ps) passed (drop (length ps) cs)
           @ replaceAll_from p ps rep (passed @ p # ps) (drop (length ps) cs)
      else c # replaceAll_from p ps rep (passed @ [c]) cs)"
  by pat_completeness auto
termination
  by (relation "measure (\<lambda>(p, ps, rep, passed, s). length s)") auto

definition interpolate :: "string \<Rightarrow> string jsrecord \<Rightarrow> string" where
  "interpolate template vars =
     fold (\<lambda>kv out. replaceAll_from CHR ''{'' (fst kv @ ''}'') (snd kv) [] out) vars template"

text \<open>
  \<^verbatim>\<open>JSON.parse(JSON.stringify(v))\<close> on a value inside an object: \<^verbatim>\<open>undefined\<close> becomes
  \<^verbatim>\<open>null\<close> in an array and disappears from an object.
\<close>

fun json_copy :: "jsval \<Rightarrow> jsval" where
  "json_copy (Arr xs) = Arr (map (\<lambda>x. if x = Undefined then Null else json_copy x) xs)"
| "json_copy (Obj kvs) =
     Obj (concat (map (\<lambda>kv. if snd kv = Undefined then [] else [(fst kv, json_copy (snd kv))]) kvs))"
| "json_copy (Proto p) =
     (case p of ObjectProto \<Rightarrow> Obj [] | ArrayProto \<Rightarrow> Arr [] | StringProto \<Rightarrow> Str []
      | NumberProto \<Rightarrow> Num 0 | BooleanProto \<Rightarrow> Bool False)"
| "json_copy v = v"

text \<open>The strings, string records and the auth record of a profile survive the round trip.\<close>

definition cloneProfile :: "ApiProfile \<Rightarrow> ApiProfile" where
  "cloneProfile p = p\<lparr>body := json_copy (body p)\<rparr>"

record Options =
  maxItems :: "int option"
  detailProfile :: "ApiProfile option"
  idPath :: "string option"
  idVarName :: "string option"

record BuiltDataset =
  sourceName :: "string option"
  rows :: "jsval list"

text \<open>\<^verbatim>\<open>xs.slice(0, m)\<close>: a negative \<open>m\<close> counts from the end.\<close>

definition slice0 :: "'a list \<Rightarrow> int \<Rightarrow> 'a list" where
  "slice0 xs m = (if m < 0 then take (nat (int (length xs) + m)) xs else take (nat m) xs)"

definition errorRow :: "jsval ProxyResponse \<Rightarrow> jsval" where
  "errorRow dres =
     Obj [(''__error'', Bool True), (''status'', Num (status dres)),
          (''statusText'', Str (statusText dres))]"

text \<open>The row pushed for the answer to a detail request.\<close>

definition rowOf :: "jsval ProxyResponse \<Rightarrow> jsval" where
  "rowOf dres = (if ok dres then data dres else errorRow dres)"

text \<open>The detail request for one list item: the body of the loop up to the call.\<close>

definition detailRequest :: "Options \<Rightarrow> ApiProfile \<Rightarrow> jsval \<Rightarrow> ApiProfile" where
  "detailRequest opts dp0 it =
     (let ident = (if present (idPath opts) then get it (the (idPath opts)) else Undefined);
          dp = cloneProfile dp0
      in if truthy ident \<and> present (idVarName opts)
         then dp\<lparr>path := interpolate (path dp) [(the (idVarName opts), js_String ident)]\<rparr>
         else dp)"

text \<open>The loop over the truncated items; \<open>out\<close> is the array of rows built so far.\<close>

fun detailLoop ::
  "platform \<Rightarrow> world \<Rightarrow> Options \<Rightarrow> ApiProfile \<Rightarrow> jsval list \<Rightarrow> jsval list \<Rightarrow> trace
     \<Rightarrow> (error + jsval list) \<times> trace" where
  "detailLoop P W opts dp0 [] out tr = (Inr out, tr)"
| "detailLoop P W opts dp0 (it # rest) out tr =
     (case runProfile P W (detailRequest opts dp0 it) tr of
        (Inl e, tr') \<Rightarrow> (Inl e, tr')
      | (Inr dres, tr') \<Rightarrow>
          detailLoop P W opts dp0 rest (out @ [rowOf dres]) tr')"

text \<open>
  Three expressions of \<^verbatim>\<open>buildDataset\<close>: the array found at \<^verbatim>\<open>arrayPath\<close> (anything that is
  not an array counts as the empty array), \<^verbatim>\<open>options?.maxItems ?? 20\<close>, and
  \<^verbatim>\<open>options?.detailProfile\<close>.
\<close>

definition list_items :: "jsval \<Rightarrow> string \<Rightarrow> jsval list" where
  "list_items d arrayPath = (case get d arrayPath of Arr xs \<Rightarrow> xs | _ \<Rightarrow> [])"

definition max_items :: "Options option \<Rightarrow> int" where
  "max_items options =
     (case options of None \<Rightarrow> 20
      | Some opts \<Rightarrow> (case maxItems opts of None \<Rightarrow> 20 | Some m \<Rightarrow> m))"

definition detail_of :: "Options option \<Rightarrow> ApiProfile option" where
  "detail_of options = (case options of None \<Rightarrow> None | Some opts \<Rightarrow> detailProfile opts)"

definition buildDataset ::
  "platform \<Rightarrow> world \<Rightarrow> ApiProfile \<Rightarrow> string \<Rightarrow> Options option \<Rightarrow> trace
     \<Rightarrow> (error + BuiltDataset) \<times> trace" where
  "buildDataset P W listProfile arrayPath options tr =
     (case runProfile P W listProfile tr of
        (Inl e, tr1) \<Rightarrow> (Inl e, tr1)
      | (Inr res, tr1) \<Rightarrow>
          if \<not> ok res
          then (Inl (Error (''List request failed: '' @ show_int (status res) @ '' ''
                            @ statusText res)), tr1)
          else
            (let items = list_items (data res) arrayPath;
                 limited = slice0 items (max_items options)
             in case detail_of options of
                  None \<Rightarrow> (Inr \<lparr>sourceName = name listProfile, rows = limited\<rparr>, tr1)
                | Some dp0 \<Rightarrow>
                    (case detailLoop P W (the options) dp0 limited [] tr1 of
                       (Inl e, tr2) \<Rightarrow> (Inl e, tr2)
                     | (Inr out, tr2) \<Rightarrow>
                         (Inr \<lparr>sourceName = name listProfile, rows = out\<rparr>, tr2))))"

text \<open>The answer that the remote side gave to the \<open>i\<close>-th request of a trace.\<close>

definition answer_at :: "world \<Rightarrow> trace \<Rightarrow> nat \<Rightarrow> jsval ProxyResponse" where
  "answer_at W tr i = fst (runProxy W (tr ! i) (take i tr))"

section \<open>The proxy endpoint\<close>

text \<open>\<^verbatim>\<open>toLowerCase\<close> on the letters of ASCII, which is where header names live.\<close>

definition toLowerCase :: "string \<Rightarrow> string" where
  "toLowerCase s =
     map (\<lambda>c. if 65 \<le> (of_char c :: nat) \<and> (of_char c :: nat) \<le> 90
               then char_of (of_char c + 32 :: nat) else c) s"

definition startsWith :: "string \<Rightarrow> string \<Rightarrow> bool" where
  "startsWith s pre = (take (length pre) s = pre)"

definition forwardHeaders :: "string jsrecord option \<Rightarrow> string jsrecord" where
  "forwardHeaders hs =
     fold (\<lambda>kv fh. if \<not> startsWith (toLowerCase (fst kv)) ''host''
                    then rec_set (fst kv) (snd kv) fh else fh)
          (or_empty hs) []"

text \<open>The arguments of the outbound \<^verbatim>\<open>fetch\<close> of the \<^verbatim>\<open>POST\<close> handler.\<close>

record Outbound =
  out_url :: string
  out_method :: HttpMethod
  out_headers :: "string jsrecord"
  out_body :: "string option"

definition outbound :: "ProxyRequest \<Rightarrow> Outbound" where
  "outbound rq =
     \<lparr>out_url = url rq, out_method = req_method rq, out_headers = forwardHeaders (req_headers rq),
      out_body = (if req_method rq \<in> set [GET, HEAD] then None
                  else if req_body rq \<noteq> Undefined then stringify (req_body rq) else None)\<rparr>"

section \<open>\<^verbatim>\<open>applyAuth\<close> on a heap of objects\<close>

text \<open>
  To say which objects \<^verbatim>\<open>applyAuth\<close> writes, the header and query records live in a heap:
  an object is addressed by its position, and a new object is appended. The function
  reads three fields of the profile: the references \<^verbatim>\<open>profile.headers\<close> and
  \<^verbatim>\<open>profile.query\<close>, and the auth record. It returns the addresses of the two records of
  its result together with the heap it leaves.
\<close>

type_synonym addr = nat

type_synonym heap = "string jsrecord list"

text \<open>\<^verbatim>\<open>{ ...(r || {}) }\<close>: a new object with the properties of \<open>r\<close>.\<close>

definition spread :: "heap \<Rightarrow> addr option \<Rightarrow> addr \<times> heap" where
  "spread H r = (length H, H @ [case r of None \<Rightarrow> [] | Some a \<Rightarrow> H ! a])"

text \<open>\<^verbatim>\<open>obj[k] = v\<close> on the object at address \<open>a\<close>.\<close>

definition assign :: "heap \<Rightarrow> addr \<Rightarrow> string \<Rightarrow> string \<Rightarrow> heap" where
  "assign H a k v = H[a := rec_set k v (H ! a)]"

definition applyAuth_heap ::
  "heap \<Rightarrow> addr option \<Rightarrow> addr option \<Rightarrow> Auth option \<Rightarrow> (addr \<times> addr) \<times> heap" where
  "applyAuth_heap H hdrs qry au =
     (case spread H hdrs of
        (hs, H1) \<Rightarrow>
          (case spread H1 qry of
             (q, H2) \<Rightarrow>
               ((hs, q),
                (case au of
                   None \<Rightarrow> H2
                 | Some a \<Rightarrow>
                     (case auth_type a of
                        apiKeyHeader \<Rightarrow>
                          (if present (apiKey a)
                           then assign H2 hs (or_default (apiKeyHeaderName a) ''Authorization'')
                                  (the (apiKey a))
                           else H2)
                      | apiKeyQuery \<Rightarrow>
                          (if present (apiKey a)
                           then assign H2 q (or_default (apiKeyQueryName a) ''api_key'')
                                  (the (apiKey a))
                           else H2)
                      | bearer \<Rightarrow>
                          (if present (bearerToken a)
                           then assign H2 hs ''Authorization'' (''Bearer '' @ the (bearerToken a))
                           else H2)
                      | none \<Rightarrow> H2)))))"

text \<open>A reference is valid in a heap when it addresses one of its objects.\<close>

definition valid_ref :: "heap \<Rightarrow> addr option \<Rightarrow> bool" where
  "valid_ref H r = (case r of None \<Rightarrow> True | Some a \<Rightarrow> a < length H)"

section \<open>Concrete scenarios\<close>

text \<open>
  A small platform for evaluating concrete scenarios: it accepts the absolute
  \<^verbatim>\<open>http\<close> and \<^verbatim>\<open>https\<close> URLs, keeps them as written, and appends parameters.
\<close>

definition plainPlatform :: platform where
  "plainPlatform =
     \<lparr>urlParse = (\<lambda>s. if take 7 s = ''http://'' \<and> 7 < length s
                          \<or> take 8 s = ''https://'' \<and> 8 < length s then Some s else None),
      urlSetParam = (\<lambda>u k v. u @ (if CHR ''?'' \<in> set u then ''&'' else ''?'') @ k @ ''='' @ v),
      strPositive = (\<lambda>s. s \<noteq> [] \<and> list_all is_digit s \<and> 0 < num_val s)\<rparr>"

text \<open>A remote side that gives the same answer to every request.\<close>

definition constWorld :: "jsval ProxyResponse \<Rightarrow> world" where
  "constWorld res = (\<lambda>tr rq. (res, 5))"

definition foundResponse :: "jsval ProxyResponse" where
  "foundResponse =
     \<lparr>ok = True, status = 200, statusText = ''OK'', resp_headers = [],
      data = Obj [(''total'', Num 1),
                  (''results'',
                     Arr [Obj [(''id'', Str ''42''),
                               (''properties'',
                                  Obj [(''email'', Str ''a@b.com''),
                                       (''firstname'', Str ''Old'')])]])],
      rawText = None, durationMs = Some 7\<rparr>"

definition failedResponse :: "jsval ProxyResponse" where
  "failedResponse =
     \<lparr>ok = False, status = 500, statusText = ''Internal Server Error'', resp_headers = [],
      data = Undefined, rawText = Some ''oops'', durationMs = Some 7\<rparr>"

definition exampleBase :: ApiProfile where
  "exampleBase =
     \<lparr>name = None, baseUrl = ''https://api.example.com'',
      path = ''/v3/objects/contacts/search'', http_method = POST, headers = None, query = None,
      body = Undefined, auth = None\<rparr>"


definition getProfile :: ApiProfile where
  "getProfile =
     \<lparr>name = Some ''List items'', baseUrl = ''https://api.example.com/'', path = ''items'',
      http_method = GET,
      headers = Some [(''Host'', ''internal.example''), (''Accept'', ''application/json'')],
      query = Some [(''limit'', ''5''), (''cursor'', [])],
      body = Obj [(''x'', Num 1)],
      auth = Some \<lparr>auth_type = bearer, apiKey = None, apiKeyHeaderName = None,
                    apiKeyQueryName = None, bearerToken = Some ''t0k''\<rparr>\<rparr>"

definition getRequest :: ProxyRequest where
  "getRequest =
     \<lparr>url = ''https://api.example.com/items?limit=5'', req_method = GET,
      req_headers = Some [(''Host'', ''internal.example''), (''Accept'', ''application/json''),
                          (''Authorization'', ''Bearer t0k'')],
      req_body = Obj [(''x'', Num 1)]\<rparr>"

definition exampleHeap :: heap where
  "exampleHeap = [[(''Accept'', ''application/json'')], [(''page'', ''1'')]]"

definition bearerAuth :: Auth where
  "bearerAuth = \<lparr>auth_type = bearer, apiKey = None, apiKeyHeaderName = None,
                  apiKeyQueryName = None, bearerToken = Some ''t0k''\<rparr>"



definition itemsProfile :: ApiProfile where
  "itemsProfile =
     \<lparr>name = Some ''Items'', baseUrl = ''https://api.example.com'', path = ''/items'',
      http_method = GET, headers = None, query = None, body = Undefined, auth = None\<rparr>"

definition itemsRequest :: ProxyRequest where
  "itemsRequest =
     \<lparr>url = ''https://api.example.com/items'', req_method = GET, req_headers = Some [],
      req_body = Undefined\<rparr>"

definition itemProfile :: ApiProfile where
  "itemProfile = itemsProfile\<lparr>name := Some ''Item'', path := ''/items/{ID}''\<rparr>"

definition itemsOptions :: Options where
  "itemsOptions =
     \<lparr>maxItems = None, detailProfile = Some itemProfile, idPath = Some ''id'',
      idVarName = Some ''ID''\<rparr>"

text \<open>
  A remote side with three items, where the detail of the second one is missing.
\<close>

definition itemsWorld :: world where
  "itemsWorld tr rq =
     (if url rq = ''https://api.example.com/items''
      then (\<lparr>ok = True, status = 200, statusText = ''OK'', resp_headers = [],
             data = Obj [(''items'', Arr [Obj [(''id'', Num 1)], Obj [(''id'', Num 2)],
                                         Obj [(''id'', Num 3)]])],
             rawText = None, durationMs = Some 3\<rparr>, 4)
      else if url rq = ''https://api.example.com/items/2''
      then (\<lparr>ok = False, status = 404, statusText = ''Not Found'', resp_headers = [],
             data = Undefined, rawText = Some ''missing'', durationMs = Some 2\<rparr>, 3)
      else (\<lparr>ok = True, status = 200, statusText = ''OK'', resp_headers = [],
             data = Obj [(''url'', Str (url rq))], rawText = None, durationMs = None\<rparr>, 6))"

definition fiftyResponse :: "jsval ProxyResponse" where
  "fiftyResponse =
     \<lparr>ok = True, status = 200, statusText = ''OK'', resp_headers = [],
      data = Obj [(''results'', Arr (map (\<lambda>i. Num (int i)) [0..<50]))],
      rawText = None, durationMs = Some 9\<rparr>"

definition fiveOptions :: Options where
  "fiveOptions = \<lparr>maxItems = Some 5, detailProfile = None, idPath = None, idVarName = None\<rparr>"

section \<open>Facts about one proxy call\<close>

lemma runProxy_snd: "snd (runProxy W rq tr) = tr @ [rq]"
  by (simp add: runProxy_def split: prod.split)

lemma runProxy_ok: "ok (fst (runProxy W rq tr)) = ok (fst (W tr rq))"
  by (simp add: runProxy_def split: prod.split)

lemma runProxy_data: "data (fst (runProxy W rq tr)) = data (fst (W tr rq))"
  by (simp add: runProxy_def split: prod.split)

lemma runProxy_status: "status (fst (runProxy W rq tr)) = status (fst (W tr rq))"
  by (simp add: runProxy_def split: prod.split)

lemma runProxy_statusText: "statusText (fst (runProxy W rq tr)) = statusText (fst (W tr rq))"
  by (simp add: runProxy_def split: prod.split)

lemma searchContactByEmail_sent:
  assumes "buildUrl P (baseUrl base) ''/crm/v3/objects/contacts/search'' [] = Inr u"
  shows "searchContactByEmail P W base email tr =
           (Inr (fst (runProxy W (searchPayload u (ensureBearerHeaders base) email) tr)),
            tr @ [searchPayload u (ensureBearerHeaders base) email])"
  using assms runProxy_snd [of W "searchPayload u (ensureBearerHeaders base) email" tr]
  by (auto simp: searchContactByEmail_def Let_def split: prod.split)

lemma example_search_url:
  "buildUrl plainPlatform (baseUrl exampleBase) ''/crm/v3/objects/contacts/search'' [] =
     Inr ''https://api.example.com/crm/v3/objects/contacts/search''"
  by code_simp

lemma example_headers: "ensureBearerHeaders exampleBase = [(''Content-Type'', ''application/json'')]"
  by code_simp

section \<open>Planning an upsert\<close>

lemma scenario_diff:
  "diffProperties (Obj [(''email'', Str ''a@b.com''), (''firstname'', Str ''Old'')])
     (Obj [(''email'', Str ''a@b.com''), (''firstname'', Str ''New'')])
   = [(''firstname'', \<lparr>change_from = Str ''Old'', change_to = Str ''New''\<rparr>)]"
  by code_simp

text \<open>
  C1. The end-to-end scenario. For every base profile whose search request is sent (its URL
  is accepted by the platform) and answered with \<^verbatim>\<open>ok = true\<close> and the body
  \<^verbatim>\<open>{total:1, results:[{id:"42", properties:{email:"a@b.com", firstname:"Old"}}]}\<close>,
  planning with the mapped properties \<^verbatim>\<open>{email:"a@b.com", firstname:"New"}\<close> returns exactly
  the update plan for record 42 whose diff has the single entry for \<^verbatim>\<open>firstname\<close>, after
  exactly one request.
\<close>

theorem planUpsert_update_scenario:
  assumes url: "buildUrl P (baseUrl base) ''/crm/v3/objects/contacts/search'' [] = Inr u"
    and res: "fst (W tr (searchPayload u (ensureBearerHeaders base) (Str ''a@b.com''))) = res"
    and ok: "ok res"
    and dat: "data res =
               Obj [(''total'', Num 1),
                    (''results'',
                       Arr [Obj [(''id'', Str ''42''),
                                 (''properties'',
                                    Obj [(''email'', Str ''a@b.com''),
                                         (''firstname'', Str ''Old'')])]])]"
  shows "planUpsertContactByEmail P W base
           [(''email'', Str ''a@b.com''), (''firstname'', Str ''New'')] tr =
         (Inr \<lparr>action = update, matchEmail = None, plan_id = Some (Str ''42''),
               properties = [(''email'', Str ''a@b.com''), (''firstname'', Str ''New'')],
               diff = Some [(''firstname'',
                             \<lparr>change_from = Str ''Old'', change_to = Str ''New''\<rparr>)]\<rparr>,
          tr @ [searchPayload u (ensureBearerHeaders base) (Str ''a@b.com'')])"
proof -
  let ?rq = "searchPayload u (ensureBearerHeaders base) (Str ''a@b.com'')"
  let ?r = "fst (runProxy W ?rq tr)"
  have s: "searchContactByEmail P W base (Str ''a@b.com'') tr = (Inr ?r, tr @ [?rq])"
    by (rule searchContactByEmail_sent [OF url])
  have o: "ok ?r"
    using ok res by (simp add: runProxy_ok)
  have d: "data ?r =
             Obj [(''total'', Num 1),
                  (''results'',
                     Arr [Obj [(''id'', Str ''42''),
                               (''properties'',
                                  Obj [(''email'', Str ''a@b.com''),
                                       (''firstname'', Str ''Old'')])]])]"
    using dat res by (simp add: runProxy_data)
  have i0: "is_index ''0''"
    by (simp add: is_index_def is_digit_def num_val_def)
  have n0: "num_val ''0'' = 0"
    by (simp add: num_val_def)
  show ?thesis
    unfolding planUpsertContactByEmail_def
    by (simp add: s o d opt_prop_def i0 n0 scenario_diff Let_def)
qed

theorem planUpsert_update_scenario_witness:
  "buildUrl plainPlatform (baseUrl exampleBase) ''/crm/v3/objects/contacts/search'' [] =
     Inr ''https://api.example.com/crm/v3/objects/contacts/search''
   \<and> ok foundResponse
   \<and> planUpsertContactByEmail plainPlatform (constWorld foundResponse) exampleBase
        [(''email'', Str ''a@b.com''), (''firstname'', Str ''New'')] [] =
      (Inr \<lparr>action = update, matchEmail = None, plan_id = Some (Str ''42''),
            properties = [(''email'', Str ''a@b.com''), (''firstname'', Str ''New'')],
            diff = Some [(''firstname'',
                          \<lparr>change_from = Str ''Old'', change_to = Str ''New''\<rparr>)]\<rparr>,
       [searchPayload ''https://api.example.com/crm/v3/objects/contacts/search''
          [(''Content-Type'', ''application/json'')] (Str ''a@b.com'')])"
proof -
  have r: "fst (constWorld foundResponse []
                  (searchPayload ''https://api.example.com/crm/v3/objects/contacts/search''
                     (ensureBearerHeaders exampleBase) (Str ''a@b.com''))) = foundResponse"
    by (simp add: constWorld_def)
  have o: "ok foundResponse"
    by (simp add: foundResponse_def)
  have d: "data foundResponse =
             Obj [(''total'', Num 1),
                  (''results'',
                     Arr [Obj [(''id'', Str ''42''),
                               (''properties'',
                                  Obj [(''email'', Str ''a@b.com''),
                                       (''firstname'', Str ''Old'')])]])]"
    by (simp add: foundResponse_def)
  show ?thesis
    using planUpsert_update_scenario
            [where W = "constWorld foundResponse" and tr = "[]", OF example_search_url r o d] o
    by (simp add: example_search_url example_headers)
qed

text \<open>
  C3, as the code has it. When the search request is sent and its answer has
  \<^verbatim>\<open>ok = false\<close>, the planner raises nothing: it returns the create plan that carries the
  email as \<^verbatim>\<open>matchEmail\<close>, after exactly one request.
\<close>

theorem planUpsert_search_failed:
  assumes em: "truthy (get_prop (Obj props) ''email'')"
    and url: "buildUrl P (baseUrl base) ''/crm/v3/objects/contacts/search'' [] = Inr u"
    and nok: "\<not> ok (fst (W tr (searchPayload u (ensureBearerHeaders base)
                                  (get_prop (Obj props) ''email''))))"
  shows "planUpsertContactByEmail P W base props tr =
         (Inr \<lparr>action = create, matchEmail = Some (get_prop (Obj props) ''email''),
               plan_id = None, properties = props, diff = None\<rparr>,
          tr @ [searchPayload u (ensureBearerHeaders base) (get_prop (Obj props) ''email'')])"
proof -
  let ?em = "get_prop (Obj props) ''email''"
  let ?rq = "searchPayload u (ensureBearerHeaders base) ?em"
  let ?r = "fst (runProxy W ?rq tr)"
  have s: "searchContactByEmail P W base ?em tr = (Inr ?r, tr @ [?rq])"
    by (rule searchContactByEmail_sent [OF url])
  have o: "\<not> ok ?r"
    using nok by (simp add: runProxy_ok)
  show ?thesis
    unfolding planUpsertContactByEmail_def Let_def
    using em o by (simp only: s) simp
qed

theorem planUpsert_search_failed_witness:
  "truthy (get_prop (Obj [(''email'', Str ''c@d.org'')]) ''email'')
   \<and> \<not> ok failedResponse
   \<and> planUpsertContactByEmail plainPlatform (constWorld failedResponse) exampleBase
        [(''email'', Str ''c@d.org'')] [] =
      (Inr \<lparr>action = create, matchEmail = Some (Str ''c@d.org''), plan_id = None,
            properties = [(''email'', Str ''c@d.org'')], diff = None\<rparr>,
       [searchPayload ''https://api.example.com/crm/v3/objects/contacts/search''
          [(''Content-Type'', ''application/json'')] (Str ''c@d.org'')])"
proof -
  have e: "truthy (get_prop (Obj [(''email'', Str ''c@d.org'')]) ''email'')"
    by simp
  have o: "\<not> ok failedResponse"
    by (simp add: failedResponse_def)
  have n: "\<not> ok (fst (constWorld failedResponse []
                  (searchPayload ''https://api.example.com/crm/v3/objects/contacts/search''
                     (ensureBearerHeaders exampleBase)
                     (get_prop (Obj [(''email'', Str ''c@d.org'')]) ''email''))))"
    using o by (simp add: constWorld_def)
  show ?thesis
    using planUpsert_search_failed
            [where W = "constWorld failedResponse" and tr = "[]", OF e example_search_url n] o
    by (simp add: example_headers)
qed

text \<open>
  The claim C3 as stated fails: with a remote side that answers the search with status 500
  and \<^verbatim>\<open>ok = false\<close>, the planner returns a plan.
\<close>

theorem planUpsert_search_failed_counterexample:
  "ok failedResponse = False \<and> status failedResponse = 500
   \<and> planUpsertContactByEmail plainPlatform (constWorld failedResponse) exampleBase
        [(''email'', Str ''a@b.com''), (''firstname'', Str ''New'')] [] =
      (Inr \<lparr>action = create, matchEmail = Some (Str ''a@b.com''), plan_id = None,
            properties = [(''email'', Str ''a@b.com''), (''firstname'', Str ''New'')],
            diff = None\<rparr>,
       [\<lparr>url = ''https://api.example.com/crm/v3/objects/contacts/search'',
         req_method = POST, req_headers = Some [(''Content-Type'', ''application/json'')],
         req_body =
           Obj [(''filterGroups'',
                   Arr [Obj [(''filters'',
                                Arr [Obj [(''propertyName'', Str ''email''),
                                          (''operator'', Str ''EQ''),
                                          (''value'', Str ''a@b.com'')]])]]),
                (''properties'',
                   Arr [Str ''email'', Str ''firstname'', Str ''lastname'',
                        Str ''hs_object_id'']),
                (''limit'', Num 1)]\<rparr>])"
  by code_simp

section \<open>Executing a plan\<close>

text \<open>
  C6. In a dry run the executor makes no network call (the trace of requests is returned
  as it was, and the answer does not depend on the remote side) and returns the synthetic
  response with status 200, status text \<^verbatim>\<open>DryRun\<close>, duration 0 and the supplied plan as data.
\<close>

theorem executeUpsert_dryRun:
  "executeUpsertContactByEmail P W base plan True tr =
     (Inr \<lparr>ok = True, status = 200, statusText = ''DryRun'', resp_headers = [],
           data = PlanData plan, rawText = None, durationMs = Some 0\<rparr>, tr)"
  by (simp add: executeUpsertContactByEmail_def)

text \<open>
  C10. Executing for real an update plan that carries no record id makes no network call and
  returns the synthetic success response with status text \<^verbatim>\<open>Noop\<close> and the plan as data.
\<close>

theorem executeUpsert_update_without_id:
  assumes "action plan = update"
    and "plan_id plan = None \<or> plan_id plan = Some Undefined"
  shows "executeUpsertContactByEmail P W base plan False tr =
           (Inr \<lparr>ok = True, status = 200, statusText = ''Noop'', resp_headers = [],
                 data = PlanData plan, rawText = None, durationMs = Some 0\<rparr>, tr)"
  using assms by (auto simp: executeUpsertContactByEmail_def has_id_def)

theorem executeUpsert_update_without_id_witness:
  "executeUpsertContactByEmail plainPlatform (constWorld foundResponse) exampleBase
     \<lparr>action = update, matchEmail = None, plan_id = None,
      properties = [(''email'', Str ''a@b.com'')], diff = None\<rparr> False []
   = (Inr \<lparr>ok = True, status = 200, statusText = ''Noop'', resp_headers = [],
           data = PlanData \<lparr>action = update, matchEmail = None, plan_id = None,
                            properties = [(''email'', Str ''a@b.com'')], diff = None\<rparr>,
           rawText = None, durationMs = Some 0\<rparr>, [])"
  using executeUpsert_update_without_id
    [of "\<lparr>action = update, matchEmail = None, plan_id = None,
          properties = [(''email'', Str ''a@b.com'')], diff = None\<rparr>"
        plainPlatform "constWorld foundResponse" exampleBase "[]"]
  by simp

section \<open>Records\<close>

lemma keys_rec_replace: "map fst (rec_replace k v r) = map fst r"
  by (induction r) auto

lemma keys_rec_insert_index: "fst ` set (rec_insert_index k v r) = insert k (fst ` set r)"
  by (induction r) auto

lemma keys_rec_set:
  assumes "k \<noteq> ''__proto__'' \<or> k \<in> fst ` set r"
  shows "fst ` set (rec_set k v r) = insert k (fst ` set r)"
proof -
  have "fst ` set (rec_replace k v r) = fst ` set r"
    using keys_rec_replace [of k v r] by (metis set_map)
  with assms show ?thesis
    by (auto simp: rec_set_def keys_rec_insert_index)
qed

lemma keys_rec_set_subset: "fst ` set (rec_set k v r) \<subseteq> insert k (fst ` set r)"
proof (cases "k \<noteq> ''__proto__'' \<or> k \<in> fst ` set r")
  case True
  then show ?thesis
    by (simp add: keys_rec_set)
next
  case False
  then have "rec_set k v r = r"
    by (simp add: rec_set_def)
  then show ?thesis
    by auto
qed

lemma map_of_rec_replace: "k \<in> fst ` set r \<Longrightarrow> map_of (rec_replace k v r) k = Some v"
  by (induction r) auto

lemma map_of_rec_insert_index: "k \<notin> fst ` set r \<Longrightarrow> map_of (rec_insert_index k v r) k = Some v"
  by (induction r) auto

lemma map_of_append_new: "k \<notin> fst ` set r \<Longrightarrow> map_of (r @ [(k, v)]) k = Some v"
  by (induction r) auto

lemma map_of_rec_set:
  assumes "k \<noteq> ''__proto__'' \<or> k \<in> fst ` set r"
  shows "map_of (rec_set k v r) k = Some v"
  using assms unfolding rec_set_def
  by (auto simp: map_of_rec_replace map_of_rec_insert_index map_of_append_new
           simp del: map_of_append)

lemma rec_replace_same: "map_of r k = Some v \<Longrightarrow> rec_replace k v r = r"
  by (induction r) (auto split: if_splits)

lemma rec_set_idem: "rec_set k v (rec_set k v r) = rec_set k v r"
proof (cases "k \<noteq> ''__proto__'' \<or> k \<in> fst ` set r")
  case True
  then have "k \<in> set (map fst (rec_set k v r))"
    by (simp add: keys_rec_set)
  then have "rec_set k v (rec_set k v r) = rec_replace k v (rec_set k v r)"
    by (simp only: rec_set_def [of k v "rec_set k v r"] if_True)
  with True show ?thesis
    by (simp add: rec_replace_same map_of_rec_set)
next
  case False
  then have "rec_set k v r = r"
    by (simp add: rec_set_def)
  then show ?thesis
    by simp
qed

lemma forward_keys:
  "fst ` set acc \<subseteq> Collect Q \<Longrightarrow>
   fst ` set (fold (\<lambda>kv fh. if Q (fst kv) then rec_set (fst kv) (snd kv) fh else fh) xs acc)
     \<subseteq> Collect Q"
proof (induction xs arbitrary: acc)
  case Nil
  then show ?case by simp
next
  case (Cons x xs)
  have "fst ` set (if Q (fst x) then rec_set (fst x) (snd x) acc else acc) \<subseteq> Collect Q"
  proof (cases "Q (fst x)")
    case True
    with Cons.prems have "insert (fst x) (fst ` set acc) \<subseteq> Collect Q"
      by simp
    with keys_rec_set_subset [of "fst x" "snd x" acc]
    have "fst ` set (rec_set (fst x) (snd x) acc) \<subseteq> Collect Q"
      by (rule subset_trans)
    with True show ?thesis
      by (simp only: if_True)
  next
    case False
    with Cons.prems show ?thesis
      by (simp only: if_False)
  qed
  from Cons.IH [OF this] show ?case by simp
qed

section \<open>Requests\<close>

text \<open>
  C7, as the code has it. The request built from a profile carries the profile's body
  unchanged, whatever the method, \<^verbatim>\<open>GET\<close> and \<^verbatim>\<open>HEAD\<close> included. It is the proxy endpoint
  that drops the body: for every request it handles, the outbound request has no body when
  the method is \<^verbatim>\<open>GET\<close> or \<^verbatim>\<open>HEAD\<close>, and no header whose name, in lower case,
  starts with \<^verbatim>\<open>host\<close>.
\<close>

theorem proxy_request_body:
  "(buildProxyPayload P profile = Inr rq \<longrightarrow>
      req_body rq = body profile \<and> req_method rq = http_method profile)
   \<and> (req_method rq' \<in> {GET, HEAD} \<longrightarrow> out_body (outbound rq') = None)
   \<and> (\<forall>kv\<in>set (out_headers (outbound rq')). \<not> startsWith (toLowerCase (fst kv)) ''host'')"
proof (intro conjI impI)
  assume "buildProxyPayload P profile = Inr rq"
  then show "req_body rq = body profile"
    by (auto simp: buildProxyPayload_def split: prod.splits sum.splits)
next
  assume "buildProxyPayload P profile = Inr rq"
  then show "req_method rq = http_method profile"
    by (auto simp: buildProxyPayload_def split: prod.splits sum.splits)
next
  assume "req_method rq' \<in> {GET, HEAD}"
  then show "out_body (outbound rq') = None"
    by (auto simp: outbound_def)
next
  show "\<forall>kv\<in>set (out_headers (outbound rq')). \<not> startsWith (toLowerCase (fst kv)) ''host''"
    using forward_keys [of "[]" "\<lambda>k. \<not> startsWith (toLowerCase k) ''host''"
                           "or_empty (req_headers rq')"]
    by (auto simp: outbound_def forwardHeaders_def)
qed

lemma getProfile_payload: "buildProxyPayload plainPlatform getProfile = Inr getRequest"
  by code_simp

theorem proxy_request_body_witness:
  "buildProxyPayload plainPlatform getProfile = Inr getRequest
   \<and> req_body getRequest = body getProfile
   \<and> req_method getRequest \<in> {GET, HEAD}
   \<and> out_body (outbound getRequest) = None
   \<and> (''Host'', ''internal.example'') \<notin> set (out_headers (outbound getRequest))"
proof -
  have m: "req_method getRequest \<in> {GET, HEAD}"
    by (simp add: getRequest_def)
  have h: "startsWith (toLowerCase (fst (''Host'', ''internal.example''))) ''host''"
    by code_simp
  from proxy_request_body [of plainPlatform getProfile getRequest getRequest]
  show ?thesis
    using getProfile_payload m h by blast
qed

text \<open>
  The claim C7 as stated fails in its first half: the request built from a \<^verbatim>\<open>GET\<close>
  profile with a body carries that body.
\<close>

theorem proxy_request_body_counterexample:
  "http_method getProfile = GET
   \<and> buildProxyPayload plainPlatform getProfile =
       Inr \<lparr>url = ''https://api.example.com/items?limit=5'', req_method = GET,
            req_headers = Some [(''Host'', ''internal.example''),
                                (''Accept'', ''application/json''),
                                (''Authorization'', ''Bearer t0k'')],
            req_body = Obj [(''x'', Num 1)]\<rparr>"
  by code_simp






section \<open>Authentication\<close>

lemma assign_fst: "assign (H @ [h, q]) (length H) k v = H @ [rec_set k v h, q]"
  by (simp add: assign_def nth_append list_update_append)

lemma assign_snd: "assign (H @ [h, q]) (Suc (length H)) k v = H @ [h, rec_set k v q]"
  by (simp add: assign_def nth_append list_update_append)

lemma spread_valid:
  "valid_ref H r \<Longrightarrow> spread (H @ xs) r = (length (H @ xs), H @ xs @ [or_empty (map_option (nth H) r)])"
  by (cases r) (simp_all add: spread_def or_empty_def valid_ref_def nth_append)

lemma applyAuth_heap_value:
  assumes v1: "valid_ref H hdrs" and v2: "valid_ref H qry"
    and hp: "headers p = map_option (nth H) hdrs" and qp: "query p = map_option (nth H) qry"
  shows "applyAuth_heap H hdrs qry (auth p) =
           ((length H, Suc (length H)), H @ [fst (applyAuth p), snd (applyAuth p)])"
proof -
  have s1: "spread H hdrs = (length H, H @ [or_empty (headers p)])"
    using spread_valid [OF v1, of "[]"] by (simp add: hp)
  have s2: "spread (H @ [or_empty (headers p)]) qry =
              (Suc (length H), H @ [or_empty (headers p), or_empty (query p)])"
    using spread_valid [OF v2, of "[or_empty (headers p)]"] by (simp add: qp)
  show ?thesis
    unfolding applyAuth_heap_def applyAuth_def
    by (simp add: s1 s2 assign_fst assign_snd Let_def split: option.split AuthType.split)
qed

lemma applyAuth_twice:
  "applyAuth (p\<lparr>headers := Some (fst (applyAuth p)), query := Some (snd (applyAuth p))\<rparr>) =
     applyAuth p"
  by (simp add: applyAuth_def or_empty_def rec_set_idem Let_def split: option.split AuthType.split)

text \<open>
  C9. \<^verbatim>\<open>applyAuth\<close> writes to no object that existed before the call, so the header and
  query records of the profile are as they were; the two records it returns are new
  objects. Applied again to the profile whose headers and query are the records of the
  first result, it returns records with the same contents as the first.
\<close>

theorem applyAuth_idempotent:
  assumes v1: "valid_ref H hdrs" and v2: "valid_ref H qry"
    and a1: "applyAuth_heap H hdrs qry au = ((hs, q), H1)"
    and a2: "applyAuth_heap H1 (Some hs) (Some q) au = ((hs', q'), H2)"
  shows "take (length H) H1 = H \<and> take (length H1) H2 = H1
     \<and> length H \<le> hs \<and> length H \<le> q \<and> hs \<noteq> q
     \<and> H2 ! hs' = H1 ! hs \<and> H2 ! q' = H1 ! q"
proof -
  define p where
    "p = \<lparr>name = None, baseUrl = [], path = [], http_method = GET,
          headers = map_option (nth H) hdrs, query = map_option (nth H) qry,
          body = Undefined, auth = au\<rparr>"
  define p' where
    "p' = p\<lparr>headers := Some (fst (applyAuth p)), query := Some (snd (applyAuth p))\<rparr>"
  have "applyAuth_heap H hdrs qry (auth p) =
          ((length H, Suc (length H)), H @ [fst (applyAuth p), snd (applyAuth p)])"
    by (rule applyAuth_heap_value [OF v1 v2]) (simp_all add: p_def)
  with a1 have hs: "hs = length H" and q: "q = Suc (length H)"
    and H1: "H1 = H @ [fst (applyAuth p), snd (applyAuth p)]"
    by (simp_all add: p_def)
  have w1: "valid_ref H1 (Some hs)" and w2: "valid_ref H1 (Some q)"
    by (simp_all add: valid_ref_def hs q H1)
  have "applyAuth_heap H1 (Some hs) (Some q) (auth p') =
          ((length H1, Suc (length H1)), H1 @ [fst (applyAuth p'), snd (applyAuth p')])"
    by (rule applyAuth_heap_value [OF w1 w2]) (simp_all add: p'_def hs q H1 nth_append)
  moreover have "applyAuth p' = applyAuth p"
    unfolding p'_def by (rule applyAuth_twice)
  moreover have "auth p' = au"
    by (simp add: p'_def p_def)
  ultimately have hs': "hs' = length H1" and q': "q' = Suc (length H1)"
    and H2: "H2 = H1 @ [fst (applyAuth p), snd (applyAuth p)]"
    using a2 by simp_all
  show ?thesis
    by (simp add: hs q hs' q' H2 nth_append) (simp add: H1 nth_append)
qed

theorem applyAuth_idempotent_witness:
  "valid_ref exampleHeap (Some 0) \<and> valid_ref exampleHeap (Some 1)
   \<and> applyAuth_heap exampleHeap (Some 0) (Some 1) (Some bearerAuth) =
       ((2, 3), exampleHeap @ [[(''Accept'', ''application/json''),
                                (''Authorization'', ''Bearer t0k'')], [(''page'', ''1'')]])
   \<and> take (length exampleHeap)
         (exampleHeap @ [[(''Accept'', ''application/json''),
                          (''Authorization'', ''Bearer t0k'')], [(''page'', ''1'')]]) = exampleHeap
   \<and> snd (applyAuth_heap
             (exampleHeap @ [[(''Accept'', ''application/json''),
                              (''Authorization'', ''Bearer t0k'')], [(''page'', ''1'')]])
             (Some 2) (Some 3) (Some bearerAuth)) ! 4 =
       [(''Accept'', ''application/json''), (''Authorization'', ''Bearer t0k'')]"
proof -
  let ?H1 = "exampleHeap @ [[(''Accept'', ''application/json''),
                             (''Authorization'', ''Bearer t0k'')], [(''page'', ''1'')]]"
  have v1: "valid_ref exampleHeap (Some 0)" and v2: "valid_ref exampleHeap (Some 1)"
    by (simp_all add: valid_ref_def exampleHeap_def)
  have a1: "applyAuth_heap exampleHeap (Some 0) (Some 1) (Some bearerAuth) = ((2, 3), ?H1)"
    by code_simp
  have a2: "applyAuth_heap ?H1 (Some 2) (Some 3) (Some bearerAuth) =
              ((4, 5), snd (applyAuth_heap ?H1 (Some 2) (Some 3) (Some bearerAuth)))"
    by code_simp
  have n: "?H1 ! 2 = [(''Accept'', ''application/json''), (''Authorization'', ''Bearer t0k'')]"
    by (simp add: exampleHeap_def)
  from applyAuth_idempotent [OF v1 v2 a1 a2] v1 v2 a1 n show ?thesis
    by simp
qed

section \<open>Diffing property mappings\<close>






text \<open>No step of the loop gives \<^verbatim>\<open>changes\<close> an own property named \<^verbatim>\<open>__proto__\<close>.\<close>

lemma diff_step_proto:
  "''__proto__'' \<notin> fst ` set changes \<Longrightarrow> diff_step c n ''__proto__'' changes = changes"
  by (simp add: diff_step_def rec_set_def Let_def)

lemma diff_step_keeps:
  assumes "''__proto__'' \<notin> fst ` set changes"
  shows "''__proto__'' \<notin> fst ` set (diff_step c n k changes)"
proof (cases "k = ''__proto__''")
  case True
  with assms show ?thesis
    by (simp add: diff_step_proto)
next
  case False
  have "fst ` set (diff_step c n k changes) \<subseteq> insert k (fst ` set changes)"
    using keys_rec_set_subset [of k _ changes] by (auto simp: diff_step_def Let_def)
  with assms False show ?thesis
    by auto
qed











section \<open>Building a dataset\<close>

lemma runProfile_sent:
  "buildProxyPayload P profile = Inr rq \<Longrightarrow>
   runProfile P W profile tr = (Inr (fst (runProxy W rq tr)), tr @ [rq])"
  using runProxy_snd [of W rq tr]
  by (auto simp: runProfile_def split: prod.split)

lemma runProfile_error:
  "buildProxyPayload P profile = Inl e \<Longrightarrow> runProfile P W profile tr = (Inl e, tr)"
  by (simp add: runProfile_def)

lemma detailLoop_length:
  "detailLoop P W opts dp0 items out tr = (Inr rs, tr') \<Longrightarrow>
   length rs = length out + length items"
proof (induction items arbitrary: out tr)
  case Nil
  then show ?case by simp
next
  case (Cons it items)
  show ?case
  proof (cases "buildProxyPayload P (detailRequest opts dp0 it)")
    case (Inl e)
    with Cons.prems show ?thesis
      by (simp add: runProfile_error)
  next
    case (Inr r)
    with Cons.prems have
      "detailLoop P W opts dp0 items (out @ [rowOf (fst (runProxy W r tr))]) (tr @ [r]) = (Inr rs, tr')"
      by (simp add: runProfile_sent)
    from Cons.IH [OF this] show ?thesis by simp
  qed
qed

lemma answer_at_snoc:
  "answer_at W (tr @ r # rest) (length tr) = fst (runProxy W r tr)"
  by (simp add: answer_at_def)

lemma detailLoop_rows:
  assumes "\<forall>it\<in>set items. \<exists>r. buildProxyPayload P (detailRequest opts dp0 it) = Inr r"
  shows "\<exists>rs ext. detailLoop P W opts dp0 items out tr = (Inr (out @ rs), tr @ ext)
           \<and> length rs = length items \<and> length ext = length items
           \<and> (\<forall>i<length items.
                 buildProxyPayload P (detailRequest opts dp0 (items ! i)) = Inr (ext ! i)
                 \<and> rs ! i = rowOf (answer_at W (tr @ ext) (length tr + i)))"
  using assms
proof (induction items arbitrary: out tr)
  case Nil
  then show ?case by simp
next
  case (Cons it items)
  from Cons.prems obtain r where r: "buildProxyPayload P (detailRequest opts dp0 it) = Inr r"
    by auto
  let ?row = "rowOf (fst (runProxy W r tr))"
  from Cons.prems have "\<forall>it\<in>set items. \<exists>r. buildProxyPayload P (detailRequest opts dp0 it) = Inr r"
    by simp
  from Cons.IH [OF this, of "out @ [?row]" "tr @ [r]"]
  obtain rs ext where
    loop: "detailLoop P W opts dp0 items (out @ [?row]) (tr @ [r]) = (Inr ((out @ [?row]) @ rs), (tr @ [r]) @ ext)"
    and len: "length rs = length items" "length ext = length items"
    and each: "\<forall>i<length items.
                 buildProxyPayload P (detailRequest opts dp0 (items ! i)) = Inr (ext ! i)
                 \<and> rs ! i = rowOf (answer_at W ((tr @ [r]) @ ext) (length (tr @ [r]) + i))"
    by blast
  have step: "detailLoop P W opts dp0 (it # items) out tr = (Inr (out @ ?row # rs), tr @ r # ext)"
    using loop by (simp add: runProfile_sent [OF r])
  have all: "\<forall>i<length (it # items).
                 buildProxyPayload P (detailRequest opts dp0 ((it # items) ! i)) = Inr ((r # ext) ! i)
                 \<and> (?row # rs) ! i = rowOf (answer_at W (tr @ r # ext) (length tr + i))"
  proof (intro allI impI)
    fix i
    assume "i < length (it # items)"
    show "buildProxyPayload P (detailRequest opts dp0 ((it # items) ! i)) = Inr ((r # ext) ! i)
                 \<and> (?row # rs) ! i = rowOf (answer_at W (tr @ r # ext) (length tr + i))"
    proof (cases i)
      case 0
      then show ?thesis
        by (simp add: r answer_at_snoc)
    next
      case (Suc j)
      with \<open>i < length (it # items)\<close> have "j < length items"
        by simp
      with each have "buildProxyPayload P (detailRequest opts dp0 (items ! j)) = Inr (ext ! j)
                 \<and> rs ! j = rowOf (answer_at W ((tr @ [r]) @ ext) (length (tr @ [r]) + j))"
        by blast
      with Suc show ?thesis
        by simp
    qed
  qed
  show ?case
    using step len all by (intro exI [of _ "?row # rs"] exI [of _ "r # ext"]) simp
qed

lemma slice0_nonneg: "0 \<le> m \<Longrightarrow> slice0 xs m = take (nat m) xs"
  by (simp add: slice0_def)

lemma slice0_neg:
  assumes "m < 0"
  shows "slice0 xs m = take (length xs - nat (- m)) xs"
proof -
  from assms have "nat (int (length xs) + m) = length xs - nat (- m)"
    by linarith
  with assms show ?thesis
    by (simp only: slice0_def if_True)
qed

lemma buildDataset_failed:
  assumes sent: "buildProxyPayload P listProfile = Inr rq"
    and nok: "\<not> ok (fst (W tr rq))"
  shows "buildDataset P W listProfile arrayPath options tr =
           (Inl (Error (''List request failed: '' @ show_int (status (fst (W tr rq))) @ '' ''
                        @ statusText (fst (W tr rq)))), tr @ [rq])"
  using nok
  by (simp add: buildDataset_def runProfile_sent [OF sent] runProxy_ok runProxy_status
        runProxy_statusText)

lemma buildDataset_ok:
  assumes sent: "buildProxyPayload P listProfile = Inr rq"
    and okr: "ok (fst (W tr rq))"
  shows "buildDataset P W listProfile arrayPath options tr =
           (case detail_of options of
              None \<Rightarrow>
                (Inr \<lparr>sourceName = name listProfile,
                      rows = slice0 (list_items (data (fst (W tr rq))) arrayPath)
                               (max_items options)\<rparr>, tr @ [rq])
            | Some dp0 \<Rightarrow>
                (case detailLoop P W (the options) dp0
                        (slice0 (list_items (data (fst (W tr rq))) arrayPath) (max_items options))
                        [] (tr @ [rq]) of
                   (Inl e, tr2) \<Rightarrow> (Inl e, tr2)
                 | (Inr out, tr2) \<Rightarrow> (Inr \<lparr>sourceName = name listProfile, rows = out\<rparr>, tr2)))"
  using okr
  by (simp add: buildDataset_def runProfile_sent [OF sent] runProxy_ok runProxy_data Let_def)

lemma itemsProfile_payload: "buildProxyPayload plainPlatform itemsProfile = Inr itemsRequest"
  by code_simp

text \<open>
  C5. When the list request is sent and answered with \<^verbatim>\<open>ok = true\<close> and no detail profile is
  given, \<^verbatim>\<open>buildDataset\<close> makes exactly that one request and returns the list items cut by
  \<^verbatim>\<open>slice(0, maxItems)\<close>: for a count that is not negative these are the first \<^verbatim>\<open>maxItems\<close>
  entries in their order (a negative number, which is no count, is taken from the end
  of the array and drops that many entries). The count is 20 when none is given, and a value at
  \<^verbatim>\<open>arrayPath\<close> that is not an array gives no items.
\<close>

theorem buildDataset_list_only:
  assumes sent: "buildProxyPayload P listProfile = Inr rq"
    and okr: "ok (fst (W tr rq))"
    and nod: "detail_of options = None"
  shows "buildDataset P W listProfile arrayPath options tr =
           (Inr \<lparr>sourceName = name listProfile,
                 rows = slice0 (list_items (data (fst (W tr rq))) arrayPath) (max_items options)\<rparr>,
            tr @ [rq])
     \<and> (0 \<le> max_items options \<longrightarrow>
          slice0 (list_items (data (fst (W tr rq))) arrayPath) (max_items options) =
          take (nat (max_items options)) (list_items (data (fst (W tr rq))) arrayPath))
     \<and> (max_items options < 0 \<longrightarrow>
          slice0 (list_items (data (fst (W tr rq))) arrayPath) (max_items options) =
          take (length (list_items (data (fst (W tr rq))) arrayPath) - nat (- max_items options))
            (list_items (data (fst (W tr rq))) arrayPath))
     \<and> (options = None \<or> (\<exists>opts. options = Some opts \<and> maxItems opts = None)
          \<longrightarrow> max_items options = 20)
     \<and> (\<forall>opts m. options = Some opts \<and> maxItems opts = Some m \<longrightarrow> max_items options = m)
     \<and> (\<forall>xs. get (data (fst (W tr rq))) arrayPath = Arr xs \<longrightarrow>
            list_items (data (fst (W tr rq))) arrayPath = xs)
     \<and> ((\<forall>xs. get (data (fst (W tr rq))) arrayPath \<noteq> Arr xs) \<longrightarrow>
            list_items (data (fst (W tr rq))) arrayPath = [])"
proof -
  have 1: "buildDataset P W listProfile arrayPath options tr =
           (Inr \<lparr>sourceName = name listProfile,
                 rows = slice0 (list_items (data (fst (W tr rq))) arrayPath) (max_items options)\<rparr>,
            tr @ [rq])"
    by (simp add: buildDataset_ok [where W = W and tr = tr, OF sent okr] nod)
  have 2: "0 \<le> max_items options \<longrightarrow>
          slice0 (list_items (data (fst (W tr rq))) arrayPath) (max_items options) =
          take (nat (max_items options)) (list_items (data (fst (W tr rq))) arrayPath)"
    by (simp add: slice0_nonneg)
  have neg: "max_items options < 0 \<longrightarrow>
          slice0 (list_items (data (fst (W tr rq))) arrayPath) (max_items options) =
          take (length (list_items (data (fst (W tr rq))) arrayPath) - nat (- max_items options))
            (list_items (data (fst (W tr rq))) arrayPath)"
    using slice0_neg by blast
  have 3: "options = None \<or> (\<exists>opts. options = Some opts \<and> maxItems opts = None)
          \<longrightarrow> max_items options = 20"
    by (auto simp: max_items_def)
  have 4: "\<forall>opts m. options = Some opts \<and> maxItems opts = Some m \<longrightarrow> max_items options = m"
    by (auto simp: max_items_def)
  have 5: "\<forall>xs. get (data (fst (W tr rq))) arrayPath = Arr xs \<longrightarrow>
            list_items (data (fst (W tr rq))) arrayPath = xs"
    by (simp add: list_items_def)
  have 6: "(\<forall>xs. get (data (fst (W tr rq))) arrayPath \<noteq> Arr xs) \<longrightarrow>
            list_items (data (fst (W tr rq))) arrayPath = []"
    by (cases "get (data (fst (W tr rq))) arrayPath") (simp_all add: list_items_def)
  show ?thesis
    by (rule conjI [OF 1 conjI [OF 2 conjI [OF neg conjI [OF 3 conjI [OF 4 conjI [OF 5 6]]]]]])
qed

theorem buildDataset_list_only_witness:
  "buildProxyPayload plainPlatform itemsProfile = Inr itemsRequest
   \<and> ok (fst (constWorld fiftyResponse [] itemsRequest))
   \<and> detail_of (Some fiveOptions) = None
   \<and> length (list_items (data (fst (constWorld fiftyResponse [] itemsRequest))) ''results'') = 50
   \<and> buildDataset plainPlatform (constWorld fiftyResponse) itemsProfile ''results''
        (Some fiveOptions) [] =
      (Inr \<lparr>sourceName = Some ''Items'', rows = [Num 0, Num 1, Num 2, Num 3, Num 4]\<rparr>,
       [itemsRequest])"
proof -
  have o: "ok (fst (constWorld fiftyResponse [] itemsRequest))"
    by (simp add: constWorld_def fiftyResponse_def)
  have d: "detail_of (Some fiveOptions) = None"
    by (simp add: detail_of_def fiveOptions_def)
  have l: "length (list_items (data (fst (constWorld fiftyResponse [] itemsRequest))) ''results'') = 50"
    by code_simp
  have r: "slice0 (list_items (data (fst (constWorld fiftyResponse [] itemsRequest))) ''results'')
             (max_items (Some fiveOptions)) = [Num 0, Num 1, Num 2, Num 3, Num 4]"
    by code_simp
  have n: "name itemsProfile = Some ''Items''"
    by (simp add: itemsProfile_def)
  note t = buildDataset_list_only
             [where W = "constWorld fiftyResponse" and tr = "[]" and arrayPath = "''results''",
              OF itemsProfile_payload o d]
  from t [THEN conjunct1] have
    "buildDataset plainPlatform (constWorld fiftyResponse) itemsProfile ''results''
        (Some fiveOptions) [] =
      (Inr \<lparr>sourceName = Some ''Items'', rows = [Num 0, Num 1, Num 2, Num 3, Num 4]\<rparr>,
       [itemsRequest])"
    by (simp only: r n append_Nil)
  with itemsProfile_payload o d l show ?thesis
    by blast
qed

text \<open>
  C4. The list call is the spine: when its answer has \<^verbatim>\<open>ok = false\<close> the operation ends with
  the error that carries the remote status and status text, and no dataset. A detail
  call is a leaf: whenever a dataset is returned it has exactly one row for each of the
  truncated list items, and when every detail request can be built, a dataset is returned
  after one request for each item in turn, where row \<open>i\<close> is made from the answer to the
  request for item \<open>i\<close>: the error marker when that answer has \<^verbatim>\<open>ok = false\<close>, its data
  otherwise.
\<close>

theorem buildDataset_spine_leaf:
  assumes sent: "buildProxyPayload P listProfile = Inr rq"
  shows "(\<not> ok (fst (W tr rq)) \<longrightarrow>
            buildDataset P W listProfile arrayPath options tr =
              (Inl (Error (''List request failed: '' @ show_int (status (fst (W tr rq))) @ '' ''
                           @ statusText (fst (W tr rq)))), tr @ [rq]))
     \<and> (\<forall>ds tr'. buildDataset P W listProfile arrayPath options tr = (Inr ds, tr') \<longrightarrow>
            ok (fst (W tr rq))
            \<and> length (rows ds) =
                length (slice0 (list_items (data (fst (W tr rq))) arrayPath) (max_items options)))
     \<and> (\<forall>opts dp0.
            ok (fst (W tr rq)) \<and> options = Some opts \<and> detailProfile opts = Some dp0
            \<and> (\<forall>it\<in>set (slice0 (list_items (data (fst (W tr rq))) arrayPath) (max_items options)).
                  \<exists>r. buildProxyPayload P (detailRequest opts dp0 it) = Inr r)
            \<longrightarrow> (\<exists>ds ext.
                   buildDataset P W listProfile arrayPath options tr = (Inr ds, tr @ rq # ext)
                   \<and> length ext =
                       length (slice0 (list_items (data (fst (W tr rq))) arrayPath) (max_items options))
                   \<and> (\<forall>i<length ext.
                         buildProxyPayload P
                           (detailRequest opts dp0
                              (slice0 (list_items (data (fst (W tr rq))) arrayPath)
                                 (max_items options) ! i)) = Inr (ext ! i)
                         \<and> rows ds ! i = rowOf (answer_at W (tr @ rq # ext) (length tr + 1 + i)))))
     \<and> (\<forall>r. \<not> ok r \<longrightarrow>
            rowOf r = Obj [(''__error'', Bool True), (''status'', Num (status r)),
                           (''statusText'', Str (statusText r))])
     \<and> (\<forall>r. ok r \<longrightarrow> rowOf r = data r)"
proof -
  let ?res = "fst (W tr rq)"
  let ?lim = "slice0 (list_items (data ?res) arrayPath) (max_items options)"
  have 1: "\<not> ok ?res \<longrightarrow>
            buildDataset P W listProfile arrayPath options tr =
              (Inl (Error (''List request failed: '' @ show_int (status ?res) @ '' ''
                           @ statusText ?res)), tr @ [rq])"
    using buildDataset_failed [where W = W and tr = tr, OF sent] by blast
  have 2: "\<forall>ds tr'. buildDataset P W listProfile arrayPath options tr = (Inr ds, tr') \<longrightarrow>
            ok ?res \<and> length (rows ds) = length ?lim"
  proof (intro allI impI)
    fix ds tr'
    assume b: "buildDataset P W listProfile arrayPath options tr = (Inr ds, tr')"
    have o: "ok ?res"
    proof (rule ccontr)
      assume "\<not> ok ?res"
      from buildDataset_failed [where W = W and tr = tr, OF sent this] b show False by simp
    qed
    have "length (rows ds) = length ?lim"
    proof (cases "detail_of options")
      case None
      with b show ?thesis
        by (auto simp: buildDataset_ok [where W = W and tr = tr, OF sent o])
    next
      case (Some dp0)
      obtain x tr2 where l: "detailLoop P W (the options) dp0 ?lim [] (tr @ [rq]) = (x, tr2)"
        by (cases "detailLoop P W (the options) dp0 ?lim [] (tr @ [rq])")
      from b have "(case x of Inl e \<Rightarrow> (Inl e, tr2)
                    | Inr out \<Rightarrow> (Inr \<lparr>sourceName = name listProfile, rows = out\<rparr>, tr2))
                   = (Inr ds, tr')"
        by (simp add: buildDataset_ok [where W = W and tr = tr, OF sent o] Some l)
      then obtain out where x: "x = Inr out" and r: "rows ds = out"
        by (cases x) auto
      from l x detailLoop_length [of P W "the options" dp0 ?lim "[]" "tr @ [rq]" out tr2]
      show ?thesis by (simp add: r)
    qed
    with o show "ok ?res \<and> length (rows ds) = length ?lim" by simp
  qed
  have 3: "\<forall>opts dp0.
            ok ?res \<and> options = Some opts \<and> detailProfile opts = Some dp0
            \<and> (\<forall>it\<in>set ?lim. \<exists>r. buildProxyPayload P (detailRequest opts dp0 it) = Inr r)
            \<longrightarrow> (\<exists>ds ext.
                   buildDataset P W listProfile arrayPath options tr = (Inr ds, tr @ rq # ext)
                   \<and> length ext = length ?lim
                   \<and> (\<forall>i<length ext.
                         buildProxyPayload P (detailRequest opts dp0 (?lim ! i)) = Inr (ext ! i)
                         \<and> rows ds ! i = rowOf (answer_at W (tr @ rq # ext) (length tr + 1 + i))))"
  proof (intro allI impI)
    fix opts dp0
    assume a: "ok ?res \<and> options = Some opts \<and> detailProfile opts = Some dp0
            \<and> (\<forall>it\<in>set ?lim. \<exists>r. buildProxyPayload P (detailRequest opts dp0 it) = Inr r)"
    then have o: "ok ?res" and d: "detail_of options = Some dp0" and t: "the options = opts"
      and u: "\<forall>it\<in>set ?lim. \<exists>r. buildProxyPayload P (detailRequest opts dp0 it) = Inr r"
      by (auto simp: detail_of_def)
    from detailLoop_rows [OF u, of W "[]" "tr @ [rq]"]
    obtain rs ext where
      loop: "detailLoop P W opts dp0 ?lim [] (tr @ [rq]) = (Inr rs, (tr @ [rq]) @ ext)"
      and len: "length rs = length ?lim" "length ext = length ?lim"
      and each: "\<forall>i<length ?lim.
                 buildProxyPayload P (detailRequest opts dp0 (?lim ! i)) = Inr (ext ! i)
                 \<and> rs ! i = rowOf (answer_at W ((tr @ [rq]) @ ext) (length (tr @ [rq]) + i))"
      by auto
    have b: "buildDataset P W listProfile arrayPath options tr =
               (Inr \<lparr>sourceName = name listProfile, rows = rs\<rparr>, tr @ rq # ext)"
      using loop by (simp add: buildDataset_ok [where W = W and tr = tr, OF sent o] d t)
    show "\<exists>ds ext.
                   buildDataset P W listProfile arrayPath options tr = (Inr ds, tr @ rq # ext)
                   \<and> length ext = length ?lim
                   \<and> (\<forall>i<length ext.
                         buildProxyPayload P (detailRequest opts dp0 (?lim ! i)) = Inr (ext ! i)
                         \<and> rows ds ! i = rowOf (answer_at W (tr @ rq # ext) (length tr + 1 + i)))"
      using b len each
      by (intro exI [of _ "\<lparr>sourceName = name listProfile, rows = rs\<rparr>"] exI [of _ ext]) simp
  qed
  have 4: "\<forall>r. \<not> ok r \<longrightarrow>
            rowOf r = Obj [(''__error'', Bool True), (''status'', Num (status r)),
                           (''statusText'', Str (statusText r))]"
    by (simp add: rowOf_def errorRow_def)
  have 5: "\<forall>r. ok r \<longrightarrow> rowOf r = data r"
    by (simp add: rowOf_def)
  show ?thesis
    by (rule conjI [OF 1 conjI [OF 2 conjI [OF 3 conjI [OF 4 5]]]])
qed

lemma items_limited:
  "slice0 (list_items (data (fst (itemsWorld [] itemsRequest))) ''items'')
     (max_items (Some itemsOptions)) =
   [Obj [(''id'', Num 1)], Obj [(''id'', Num 2)], Obj [(''id'', Num 3)]]"
  by code_simp

lemma item_payloads:
  "buildProxyPayload plainPlatform (detailRequest itemsOptions itemProfile (Obj [(''id'', Num 1)])) =
     Inr (itemsRequest\<lparr>url := ''https://api.example.com/items/1''\<rparr>)"
  "buildProxyPayload plainPlatform (detailRequest itemsOptions itemProfile (Obj [(''id'', Num 2)])) =
     Inr (itemsRequest\<lparr>url := ''https://api.example.com/items/2''\<rparr>)"
  "buildProxyPayload plainPlatform (detailRequest itemsOptions itemProfile (Obj [(''id'', Num 3)])) =
     Inr (itemsRequest\<lparr>url := ''https://api.example.com/items/3''\<rparr>)"
  by code_simp+

lemma items_dataset:
  "buildDataset plainPlatform itemsWorld itemsProfile ''items'' (Some itemsOptions) [] =
     (Inr \<lparr>sourceName = Some ''Items'',
           rows = [Obj [(''url'', Str ''https://api.example.com/items/1'')],
                   Obj [(''__error'', Bool True), (''status'', Num 404),
                        (''statusText'', Str ''Not Found'')],
                   Obj [(''url'', Str ''https://api.example.com/items/3'')]]\<rparr>,
      [itemsRequest,
       itemsRequest\<lparr>url := ''https://api.example.com/items/1''\<rparr>,
       itemsRequest\<lparr>url := ''https://api.example.com/items/2''\<rparr>,
       itemsRequest\<lparr>url := ''https://api.example.com/items/3''\<rparr>])"
  by code_simp

theorem buildDataset_spine_leaf_witness:
  "buildProxyPayload plainPlatform itemsProfile = Inr itemsRequest
   \<and> \<not> ok (fst (constWorld failedResponse [] itemsRequest))
   \<and> buildDataset plainPlatform (constWorld failedResponse) itemsProfile ''items''
        (Some itemsOptions) [] =
      (Inl (Error ''List request failed: 500 Internal Server Error''), [itemsRequest])
   \<and> ok (fst (itemsWorld [] itemsRequest))
   \<and> buildDataset plainPlatform itemsWorld itemsProfile ''items'' (Some itemsOptions) [] =
      (Inr \<lparr>sourceName = Some ''Items'',
            rows = [Obj [(''url'', Str ''https://api.example.com/items/1'')],
                    Obj [(''__error'', Bool True), (''status'', Num 404),
                         (''statusText'', Str ''Not Found'')],
                    Obj [(''url'', Str ''https://api.example.com/items/3'')]]\<rparr>,
       [itemsRequest,
        itemsRequest\<lparr>url := ''https://api.example.com/items/1''\<rparr>,
        itemsRequest\<lparr>url := ''https://api.example.com/items/2''\<rparr>,
        itemsRequest\<lparr>url := ''https://api.example.com/items/3''\<rparr>])
   \<and> length (slice0 (list_items (data (fst (itemsWorld [] itemsRequest))) ''items'')
                (max_items (Some itemsOptions))) = 3
   \<and> (\<exists>ds ext.
         buildDataset plainPlatform itemsWorld itemsProfile ''items'' (Some itemsOptions) [] =
           (Inr ds, itemsRequest # ext)
         \<and> length ext = 3 \<and> length (rows ds) = 3
         \<and> rows ds ! 1 = rowOf (answer_at itemsWorld (itemsRequest # ext) 2))"
proof -
  have nok: "\<not> ok (fst (constWorld failedResponse [] itemsRequest))"
    by (simp add: constWorld_def failedResponse_def)
  have msg: "''List request failed: '' @ show_int (status (fst (constWorld failedResponse [] itemsRequest)))
               @ '' '' @ statusText (fst (constWorld failedResponse [] itemsRequest)) =
             ''List request failed: 500 Internal Server Error''"
    by code_simp
  have okr: "ok (fst (itemsWorld [] itemsRequest))"
    by code_simp
  note f = buildDataset_spine_leaf
             [where W = "constWorld failedResponse" and tr = "[]" and arrayPath = "''items''"
                and options = "Some itemsOptions", OF itemsProfile_payload]
  note t = buildDataset_spine_leaf
             [where W = itemsWorld and tr = "[]" and arrayPath = "''items''"
                and options = "Some itemsOptions", OF itemsProfile_payload]
  from f [THEN conjunct1] nok have 1:
    "buildDataset plainPlatform (constWorld failedResponse) itemsProfile ''items''
        (Some itemsOptions) [] =
      (Inl (Error ''List request failed: 500 Internal Server Error''), [itemsRequest])"
    by (simp only: msg append_Nil) blast
  have 2: "length (slice0 (list_items (data (fst (itemsWorld [] itemsRequest))) ''items'')
                (max_items (Some itemsOptions))) = 3"
    by (simp add: items_limited)
  have u: "\<forall>it\<in>set (slice0 (list_items (data (fst (itemsWorld [] itemsRequest))) ''items'')
                        (max_items (Some itemsOptions))).
             \<exists>r. buildProxyPayload plainPlatform (detailRequest itemsOptions itemProfile it) = Inr r"
    by (simp add: items_limited item_payloads)
  have dp: "detailProfile itemsOptions = Some itemProfile"
    by (simp add: itemsOptions_def)
  from t [THEN conjunct2, THEN conjunct2, THEN conjunct1] okr dp u
  obtain ds ext where
    b: "buildDataset plainPlatform itemsWorld itemsProfile ''items'' (Some itemsOptions) [] =
          (Inr ds, [] @ itemsRequest # ext)"
    and le: "length ext =
               length (slice0 (list_items (data (fst (itemsWorld [] itemsRequest))) ''items'')
                         (max_items (Some itemsOptions)))"
    and each: "\<forall>i<length ext.
                 buildProxyPayload plainPlatform
                   (detailRequest itemsOptions itemProfile
                      (slice0 (list_items (data (fst (itemsWorld [] itemsRequest))) ''items'')
                         (max_items (Some itemsOptions)) ! i)) = Inr (ext ! i)
                 \<and> rows ds ! i = rowOf (answer_at itemsWorld ([] @ itemsRequest # ext)
                                          (length ([] :: trace) + 1 + i))"
    by blast
  from t [THEN conjunct2, THEN conjunct1] b have lr:
    "length (rows ds) =
       length (slice0 (list_items (data (fst (itemsWorld [] itemsRequest))) ''items'')
                 (max_items (Some itemsOptions)))"
    by blast
  from each le 2 have "rows ds ! 1 = rowOf (answer_at itemsWorld ([] @ itemsRequest # ext)
                                          (length ([] :: trace) + 1 + 1))"
    by simp
  then have r1: "rows ds ! 1 = rowOf (answer_at itemsWorld (itemsRequest # ext) 2)"
    by (simp add: numeral_2_eq_2)
  have 3: "\<exists>ds ext.
         buildDataset plainPlatform itemsWorld itemsProfile ''items'' (Some itemsOptions) [] =
           (Inr ds, itemsRequest # ext)
         \<and> length ext = 3 \<and> length (rows ds) = 3
         \<and> rows ds ! 1 = rowOf (answer_at itemsWorld (itemsRequest # ext) 2)"
    using b le lr 2 r1 by (intro exI [of _ ds] exI [of _ ext]) simp
  show ?thesis
    using itemsProfile_payload nok 1 okr items_dataset 2 3 by blast
qed

end
